theory Spec2Isabelle
  imports Main
begin

section \<open>The external-API event bridge of the mobile app\<close>

text \<open>
  A shallow embedding of \<^verbatim>\<open>react/features/mobile/external-api/middleware.js\<close>: the redux
  middleware that turns conference and configuration actions into events for the native
  host, and its four helpers. The functions keep the names of the source without the
  leading underscore, which an Isabelle name cannot start with.
\<close>

subsection \<open>JavaScript values\<close>

text \<open>
  The source runs on engines with native symbols and on the es6-symbol polyfill, which
  the comment in \<^verbatim>\<open>_getSymbolDescription\<close> names. A native symbol is a primitive with an
  identity (the number) and a description; \<^verbatim>\<open>toString()\<close> gives \<^verbatim>\<open>Symbol(description)\<close>.
  A polyfilled symbol is an object whose \<^verbatim>\<open>toString()\<close> gives its name, \<^verbatim>\<open>@@\<close> followed by
  the description and, when the description was used before, by a counter that makes the
  name unique. The name is the identity of a polyfilled symbol, and \<^verbatim>\<open>PolyfillSymbol\<close>
  holds it without the \<^verbatim>\<open>@@\<close>.
\<close>

datatype symbol = NativeSymbol nat string | PolyfillSymbol string

text \<open>
  A property key is a string or a native symbol. A polyfilled symbol used as a key is
  converted to a string, its name.
\<close>

datatype pkey = KStr string | KSym nat string

definition property_key :: "symbol \<Rightarrow> pkey" where
  "property_key y =
     (case y of
        NativeSymbol i d \<Rightarrow> KSym i d
      | PolyfillSymbol n \<Rightarrow> KStr (''@@'' @ n))"

text \<open>
  The values the bridge handles: the primitives, symbols, and plain objects whose
  properties are enumerable data properties holding values of this type again. An object
  is the map from its own property keys to their values; a key that is not in the map
  reads as \<^verbatim>\<open>undefined\<close>. A number is given by the two things the bridge can observe of
  it: whether it is falsy (\<^verbatim>\<open>0\<close> or \<^verbatim>\<open>NaN\<close>) and the string it converts to. Functions,
  accessors and the well-known symbols are not values of this type. A native \<^verbatim>\<open>Error\<close>
  instance occurs only as the value of an action's \<^verbatim>\<open>error\<close>, where the source reads
  nothing but its \<^verbatim>\<open>name\<close>, \<^verbatim>\<open>message\<close> and \<^verbatim>\<open>recoverable\<close>; it is the object with those
  properties.
\<close>

datatype jsval =
    JUndefined
  | JNull
  | JBool bool
  | JNum bool string
  | JStr string
  | JSym symbol
  | JObj "pkey \<Rightarrow> jsval option"

type_synonym obj = "pkey \<Rightarrow> jsval option"

text \<open>What a throw carries: a \<^verbatim>\<open>TypeError\<close> of the engine, or whatever a collaborator threw.\<close>

datatype jserr = TypeError | Thrown jsval

definition truthy :: "jsval \<Rightarrow> bool" where
  "truthy v =
     (case v of
        JUndefined \<Rightarrow> False
      | JNull \<Rightarrow> False
      | JBool b \<Rightarrow> b
      | JNum falsy _ \<Rightarrow> \<not> falsy
      | JStr s \<Rightarrow> s \<noteq> []
      | JSym _ \<Rightarrow> True
      | JObj _ \<Rightarrow> True)"

text \<open>
  The values that the host can be given as they are: \<^verbatim>\<open>undefined\<close>, \<^verbatim>\<open>null\<close>, a
  boolean, a number or a string. A symbol, native or polyfilled, is not one of them, and
  an object is not.
\<close>

definition is_plain :: "jsval \<Rightarrow> bool" where
  "is_plain v =
     (case v of
        JSym _ \<Rightarrow> False
      | JObj _ \<Rightarrow> False
      | _ \<Rightarrow> True)"

text \<open>\<^verbatim>\<open>o[k]\<close> on an object: the own property, or \<^verbatim>\<open>undefined\<close>.\<close>

definition prop_of :: "obj \<Rightarrow> pkey \<Rightarrow> jsval" where
  "prop_of m k = (case m k of None \<Rightarrow> JUndefined | Some v \<Rightarrow> v)"

text \<open>
  \<^verbatim>\<open>v[k]\<close> on any value, for a key that no built-in prototype defines (the source uses it
  with \<^verbatim>\<open>recoverable\<close> and with the symbol \<^verbatim>\<open>JITSI_CONFERENCE_URL_KEY\<close>): reading a
  property of \<^verbatim>\<open>undefined\<close> or \<^verbatim>\<open>null\<close> throws; a primitive has no such property, and
  neither has a polyfilled symbol.
\<close>

definition get_member :: "jsval \<Rightarrow> pkey \<Rightarrow> jserr + jsval" where
  "get_member v k =
     (case v of
        JUndefined \<Rightarrow> Inl TypeError
      | JNull \<Rightarrow> Inl TypeError
      | JObj m \<Rightarrow> Inr (prop_of m k)
      | _ \<Rightarrow> Inr JUndefined)"

subsection \<open>Strings\<close>

definition startsWith :: "string \<Rightarrow> string \<Rightarrow> bool" where
  "startsWith s p = (take (length p) s = p)"

definition endsWith :: "string \<Rightarrow> string \<Rightarrow> bool" where
  "endsWith s p = (length p \<le> length s \<and> drop (length s - length p) s = p)"

text \<open>
  \<^verbatim>\<open>s.slice(start, end)\<close>, with \<^verbatim>\<open>None\<close> for an end that is left out: a negative index
  counts from the end of the string, and both are clamped to the string.
\<close>

definition slice :: "string \<Rightarrow> int \<Rightarrow> int option \<Rightarrow> string" where
  "slice s start fin =
     (let len = int (length s);
          clamp = (\<lambda>i. if i < 0 then max (len + i) 0 else min i len);
          from = clamp start;
          to = (case fin of None \<Rightarrow> len | Some e \<Rightarrow> clamp e)
      in take (nat (to - from)) (drop (nat from) s))"

subsection \<open>Conversions to string\<close>

definition symbol_toString :: "symbol \<Rightarrow> string" where
  "symbol_toString y =
     (case y of
        NativeSymbol _ d \<Rightarrow> ''Symbol('' @ d @ '')''
      | PolyfillSymbol n \<Rightarrow> ''@@'' @ n)"

text \<open>
  The abstract operation ToString, which \<^verbatim>\<open>Error.prototype.toString\<close> applies to the
  name and the message. A native symbol cannot be converted; a polyfilled one is an
  object and is converted by its \<^verbatim>\<open>toString\<close>. A plain object is converted by its
  \<^verbatim>\<open>toString\<close> method: the inherited one gives \<^verbatim>\<open>[object Object]\<close>, and an own property
  of that name hides it with a value that cannot be called (no value of \<^typ>\<open>jsval\<close> can),
  after which \<^verbatim>\<open>valueOf\<close> yields no primitive either.
\<close>

definition ToString :: "jsval \<Rightarrow> jserr + string" where
  "ToString v =
     (case v of
        JUndefined \<Rightarrow> Inr ''undefined''
      | JNull \<Rightarrow> Inr ''null''
      | JBool b \<Rightarrow> Inr (if b then ''true'' else ''false'')
      | JNum _ printed \<Rightarrow> Inr printed
      | JStr s \<Rightarrow> Inr s
      | JSym y \<Rightarrow>
          (case y of
             NativeSymbol _ _ \<Rightarrow> Inl TypeError
           | PolyfillSymbol _ \<Rightarrow> Inr (symbol_toString y))
      | JObj m \<Rightarrow> (if m (KStr ''toString'') = None then Inr ''[object Object]'' else Inl TypeError))"

text \<open>The method call \<^verbatim>\<open>v.toString()\<close>.\<close>

definition call_toString :: "jsval \<Rightarrow> jserr + string" where
  "call_toString v =
     (case v of
        JUndefined \<Rightarrow> Inl TypeError
      | JNull \<Rightarrow> Inl TypeError
      | JSym y \<Rightarrow> Inr (symbol_toString y)
      | _ \<Rightarrow> ToString v)"

text \<open>
  \<^verbatim>\<open>Error.prototype.toString.apply(v)\<close>: a receiver that is not an object is refused; the
  name defaults to \<^verbatim>\<open>Error\<close> and the message to the empty string, and an empty one of the
  two leaves the other alone. A polyfilled symbol is an object with neither a \<^verbatim>\<open>name\<close> nor
  a \<^verbatim>\<open>message\<close>.
\<close>

definition Error_prototype_toString :: "jsval \<Rightarrow> jserr + string" where
  "Error_prototype_toString v =
     (case v of
        JObj m \<Rightarrow>
          (case (case prop_of m (KStr ''name'') of JUndefined \<Rightarrow> Inr ''Error'' | n \<Rightarrow> ToString n) of
             Inl ex \<Rightarrow> Inl ex
           | Inr name \<Rightarrow>
               (case (case prop_of m (KStr ''message'') of JUndefined \<Rightarrow> Inr [] | x \<Rightarrow> ToString x) of
                  Inl ex \<Rightarrow> Inl ex
                | Inr msg \<Rightarrow>
                    if name = [] then Inr msg
                    else if msg = [] then Inr name
                    else Inr (name @ '': '' @ msg)))
      | JSym y \<Rightarrow>
          (case y of
             NativeSymbol _ _ \<Rightarrow> Inl TypeError
           | PolyfillSymbol _ \<Rightarrow> Inr ''Error'')
      | _ \<Rightarrow> Inl TypeError)"

subsection \<open>The helpers of the middleware\<close>

definition toErrorString :: "jsval \<Rightarrow> jserr + string" where
  "toErrorString error =
     (if truthy error
      then (case error of JStr s \<Rightarrow> Inr s | _ \<Rightarrow> Error_prototype_toString error)
      else Inr [])"

definition getSymbolDescription :: "jsval \<Rightarrow> jserr + string" where
  "getSymbolDescription symbol =
     (case call_toString symbol of
        Inl ex \<Rightarrow> Inl ex
      | Inr description \<Rightarrow>
          (let description =
                 (if startsWith description ''Symbol('' \<and> endsWith description '')''
                  then slice description 7 (Some (- 1)) else description);
               description =
                 (if startsWith description ''@@'' then slice description 2 None else description)
           in Inr description))"

subsection \<open>What the middleware imports\<close>

text \<open>
  The action types and the key under which a conference keeps its URL are symbols that
  \<^verbatim>\<open>base/conference\<close> and \<^verbatim>\<open>base/config\<close> create; \<^verbatim>\<open>toURLString\<close> comes from
  \<^verbatim>\<open>base/util\<close> and returns a string or \<^verbatim>\<open>undefined\<close>; \<^verbatim>\<open>NativeModules.ExternalAPI.sendEvent\<close>
  is the host's. The source file defines none of them, so they are parameters of the
  model. The host's function answers with the exception it throws, if it throws one.
\<close>

record env =
  CONFERENCE_FAILED :: symbol
  CONFERENCE_JOINED :: symbol
  CONFERENCE_LEFT :: symbol
  CONFERENCE_WILL_JOIN :: symbol
  CONFERENCE_WILL_LEAVE :: symbol
  JITSI_CONFERENCE_URL_KEY :: symbol
  LOAD_CONFIG_ERROR :: symbol
  toURLString :: "jsval \<Rightarrow> jsval"
  ExternalAPI_sendEvent :: "string \<Rightarrow> obj \<Rightarrow> jsval \<Rightarrow> jserr option"

text \<open>
  The redux store, as far as the bridge reads it: \<^verbatim>\<open>getState()['features/app']\<close>, whose
  \<^verbatim>\<open>app\<close> is the mounted React component, or \<^verbatim>\<open>undefined\<close> when none is mounted. A
  component has \<^verbatim>\<open>props\<close>.
\<close>

record app_component =
  props :: obj

record features_app =
  app :: "app_component option"

record store =
  getState :: features_app

text \<open>The calls the middleware makes, in the order it makes them.\<close>

datatype call = CallNext obj | CallSendEvent string obj jsval

definition sendEvent :: "env \<Rightarrow> store \<Rightarrow> string \<Rightarrow> obj \<Rightarrow> call list \<times> (jserr + unit)" where
  "sendEvent e st name data =
     (case app (getState st) of
        None \<Rightarrow> ([], Inr ())
      | Some a \<Rightarrow>
          (let externalAPIScope = prop_of (props a) (KStr ''externalAPIScope'')
           in if truthy externalAPIScope
              then ([CallSendEvent name data externalAPIScope],
                    (case ExternalAPI_sendEvent e name data externalAPIScope of
                       None \<Rightarrow> Inr ()
                     | Some ex \<Rightarrow> Inl ex))
              else ([], Inr ())))"

text \<open>
  The parameter pattern takes \<^verbatim>\<open>conference\<close> and \<^verbatim>\<open>type\<close> out of the action; \<^verbatim>\<open>data\<close> is
  a fresh object with the remaining own properties.
\<close>

definition sendConferenceEvent :: "env \<Rightarrow> store \<Rightarrow> obj \<Rightarrow> call list \<times> (jserr + unit)" where
  "sendConferenceEvent e st action =
     (let conference = prop_of action (KStr ''conference'');
          type = prop_of action (KStr ''type'');
          data = action(KStr ''conference'' := None, KStr ''type'' := None)
      in case (if truthy conference
               then (case get_member conference (property_key (JITSI_CONFERENCE_URL_KEY e)) of
                       Inl ex \<Rightarrow> Inl ex
                     | Inr u \<Rightarrow> Inr (data(KStr ''url'' \<mapsto> toURLString e u)))
               else Inr data) of
           Inl ex \<Rightarrow> ([], Inl ex)
         | Inr data \<Rightarrow>
             (case getSymbolDescription type of
                Inl ex \<Rightarrow> ([], Inl ex)
              | Inr name \<Rightarrow> sendEvent e st name data))"

text \<open>
  The \<^verbatim>\<open>switch\<close> statement of the middleware, which runs after \<^verbatim>\<open>next(action)\<close> has
  returned. The cases are tried in the order of the source; \<^verbatim>\<open>===\<close> on a symbol is its
  identity. In the first case \<^verbatim>\<open>error\<close> is taken out of the action and \<^verbatim>\<open>data\<close> is the
  rest; the object literal then puts the string under \<^verbatim>\<open>error\<close> and spreads \<^verbatim>\<open>data\<close>.
\<close>

definition switch_action :: "env \<Rightarrow> store \<Rightarrow> obj \<Rightarrow> call list \<times> (jserr + unit)" where
  "switch_action e st action =
     (let type = prop_of action (KStr ''type'') in
      if type = JSym (CONFERENCE_FAILED e) then
        (let error = prop_of action (KStr ''error'');
             data = action(KStr ''error'' := None)
         in case get_member error (KStr ''recoverable'') of
              Inl ex \<Rightarrow> ([], Inl ex)
            | Inr recoverable \<Rightarrow>
                if \<not> truthy recoverable
                then (case toErrorString error of
                        Inl ex \<Rightarrow> ([], Inl ex)
                      | Inr s \<Rightarrow> sendConferenceEvent e st (data(KStr ''error'' \<mapsto> JStr s)))
                else ([], Inr ()))
      else if type = JSym (CONFERENCE_JOINED e) \<or> type = JSym (CONFERENCE_LEFT e)
              \<or> type = JSym (CONFERENCE_WILL_JOIN e) \<or> type = JSym (CONFERENCE_WILL_LEAVE e) then
        sendConferenceEvent e st action
      else if type = JSym (LOAD_CONFIG_ERROR e) then
        (let error = prop_of action (KStr ''error'');
             locationURL = prop_of action (KStr ''locationURL'')
         in case getSymbolDescription type of
              Inl ex \<Rightarrow> ([], Inl ex)
            | Inr name \<Rightarrow>
                (case toErrorString error of
                   Inl ex \<Rightarrow> ([], Inl ex)
                 | Inr s \<Rightarrow>
                     sendEvent e st name
                       (Map.empty(KStr ''error'' \<mapsto> JStr s,
                                  KStr ''url'' \<mapsto> toURLString e locationURL))))
      else ([], Inr ()))"

text \<open>
  The middleware: \<^verbatim>\<open>next\<close> is the rest of the pipeline, which returns a value or throws.
  The result is the calls made and what the middleware returns or throws.
\<close>

definition middleware ::
  "env \<Rightarrow> store \<Rightarrow> (obj \<Rightarrow> jserr + jsval) \<Rightarrow> obj \<Rightarrow> call list \<times> (jserr + jsval)" where
  "middleware e st next action =
     (case next action of
        Inl ex \<Rightarrow> ([CallNext action], Inl ex)
      | Inr result \<Rightarrow>
          (case switch_action e st action of
             (calls, Inl ex) \<Rightarrow> (CallNext action # calls, Inl ex)
           | (calls, Inr _) \<Rightarrow> (CallNext action # calls, Inr result)))"

subsection \<open>Observing a run\<close>

text \<open>The calls to the host among the calls made: name, data and scope of each.\<close>

fun host_calls :: "call list \<Rightarrow> (string \<times> obj \<times> jsval) list" where
  "host_calls [] = []"
| "host_calls (CallNext _ # cs) = host_calls cs"
| "host_calls (CallSendEvent name data scope # cs) = (name, data, scope) # host_calls cs"

text \<open>
  An installation to run the middleware on: native symbols labelled as the constants are
  named, a \<^verbatim>\<open>toURLString\<close> that leaves a string as it is, and a host that accepts every
  event; a store with a surface mounted under a scope, and one with none.
\<close>

definition example_toURLString :: "jsval \<Rightarrow> jsval" where
  "example_toURLString v = (case v of JStr s \<Rightarrow> JStr s | _ \<Rightarrow> JUndefined)"

definition example_env :: env where
  "example_env =
     \<lparr> CONFERENCE_FAILED = NativeSymbol 0 ''CONFERENCE_FAILED'',
       CONFERENCE_JOINED = NativeSymbol 1 ''CONFERENCE_JOINED'',
       CONFERENCE_LEFT = NativeSymbol 2 ''CONFERENCE_LEFT'',
       CONFERENCE_WILL_JOIN = NativeSymbol 3 ''CONFERENCE_WILL_JOIN'',
       CONFERENCE_WILL_LEAVE = NativeSymbol 4 ''CONFERENCE_WILL_LEAVE'',
       JITSI_CONFERENCE_URL_KEY = NativeSymbol 5 ''url'',
       LOAD_CONFIG_ERROR = NativeSymbol 6 ''LOAD_CONFIG_ERROR'',
       toURLString = example_toURLString,
       ExternalAPI_sendEvent = (\<lambda>name data scope. None) \<rparr>"

definition mounted :: "string \<Rightarrow> store" where
  "mounted scope =
     \<lparr> getState = \<lparr> app = Some \<lparr> props = Map.empty(KStr ''externalAPIScope'' \<mapsto> JStr scope) \<rparr> \<rparr> \<rparr>"

definition unmounted :: store where
  "unmounted = \<lparr> getState = \<lparr> app = None \<rparr> \<rparr>"

definition example_next :: "obj \<Rightarrow> jserr + jsval" where
  "example_next action = Inr (JObj action)"

text \<open>Actions to run it on.\<close>

definition joined_action :: obj where
  "joined_action =
     Map.empty(KStr ''type'' \<mapsto> JSym (NativeSymbol 1 ''CONFERENCE_JOINED''),
       KStr ''conference'' \<mapsto>
         JObj (Map.empty(KSym 5 ''url'' \<mapsto> JStr ''https://example.com/room'')))"

definition failed_action :: "jsval \<Rightarrow> obj" where
  "failed_action error =
     Map.empty(KStr ''type'' \<mapsto> JSym (NativeSymbol 0 ''CONFERENCE_FAILED''),
       KStr ''error'' \<mapsto> error)"

definition password_required :: jsval where
  "password_required =
     JObj (Map.empty(KStr ''name'' \<mapsto> JStr ''conference.passwordRequired'',
       KStr ''recoverable'' \<mapsto> JBool True))"

definition config_action :: "symbol \<Rightarrow> obj" where
  "config_action type =
     Map.empty(KStr ''type'' \<mapsto> JSym type,
       KStr ''error'' \<mapsto> JStr ''network down'',
       KStr ''locationURL'' \<mapsto> JStr ''http://cfg/x.json'')"


section \<open>Properties\<close>

subsection \<open>From a symbol to a name\<close>

lemma slice_wrapped: "slice (''Symbol('' @ d @ '')'') 7 (Some (- 1)) = d"
  by (simp add: slice_def Let_def)

lemma slice_sigil: "startsWith d ''@@'' \<Longrightarrow> slice d 2 None = drop 2 d"
  by (auto simp add: slice_def Let_def startsWith_def min_def)

lemma wrapped_starts: "startsWith (''Symbol('' @ d @ '')'') ''Symbol(''"
  by (simp add: startsWith_def)

lemma wrapped_ends: "endsWith (''Symbol('' @ d @ '')'') '')''"
  by (simp add: endsWith_def)

lemma native_description:
  "getSymbolDescription (JSym (NativeSymbol i d)) =
   Inr (if startsWith d ''@@'' then drop 2 d else d)"
  unfolding getSymbolDescription_def call_toString_def symbol_toString_def
  by (simp add: wrapped_starts wrapped_ends slice_wrapped slice_sigil Let_def del: append.simps)

lemma polyfill_description:
  "getSymbolDescription (JSym (PolyfillSymbol n)) = Inr n"
  unfolding getSymbolDescription_def call_toString_def symbol_toString_def
  by (simp add: startsWith_def endsWith_def slice_def Let_def)

lemma symbol_description: "\<exists>name. getSymbolDescription (JSym y) = Inr name"
  by (cases y) (simp_all add: native_description polyfill_description)





subsection \<open>From an error to a string\<close>

lemma ToString_plain: "is_plain v \<Longrightarrow> \<exists>s. ToString v = Inr s"
  by (cases v) (simp_all add: is_plain_def ToString_def)

lemma toErrorString_object:
  "toErrorString (JObj m) = Error_prototype_toString (JObj m)"
  by (simp add: toErrorString_def truthy_def)

lemma Error_prototype_toString_total:
  assumes "is_plain (prop_of m (KStr ''name''))"
    and "is_plain (prop_of m (KStr ''message''))"
  shows "\<exists>s. Error_prototype_toString (JObj m) = Inr s"
proof -
  obtain n where n:
    "(case prop_of m (KStr ''name'') of JUndefined \<Rightarrow> Inr ''Error'' | n \<Rightarrow> ToString n) = Inr n"
    using ToString_plain [OF assms(1)] by (cases "prop_of m (KStr ''name'')") auto
  obtain x where x:
    "(case prop_of m (KStr ''message'') of JUndefined \<Rightarrow> Inr [] | x \<Rightarrow> ToString x) = Inr x"
    using ToString_plain [OF assms(2)] by (cases "prop_of m (KStr ''message'')") auto
  show ?thesis
    unfolding Error_prototype_toString_def by (simp add: n x)
qed

lemma Error_prototype_toString_fields:
  assumes "m (KStr ''name'') = m' (KStr ''name'')"
    and "m (KStr ''message'') = m' (KStr ''message'')"
  shows "Error_prototype_toString (JObj m) = Error_prototype_toString (JObj m')"
proof -
  have n: "prop_of m (KStr ''name'') = prop_of m' (KStr ''name'')"
    and x: "prop_of m (KStr ''message'') = prop_of m' (KStr ''message'')"
    using assms by (simp_all add: prop_of_def)
  show ?thesis
    by (simp add: Error_prototype_toString_def n x cong: jsval.case_cong sum.case_cong)
qed

lemma Error_prototype_toString_strings:
  assumes "prop_of m (KStr ''name'') = JStr n" and "prop_of m (KStr ''message'') = JStr x"
  shows "Error_prototype_toString (JObj m) =
         Inr (if n = [] then x else if x = [] then n else n @ '': '' @ x)"
  using assms by (simp add: Error_prototype_toString_def ToString_def)

lemma Error_prototype_toString_absent:
  assumes "prop_of m (KStr ''name'') = JUndefined"
    and "prop_of m (KStr ''message'') = JUndefined"
  shows "Error_prototype_toString (JObj m) = Inr ''Error''"
  using assms by (simp add: Error_prototype_toString_def)

lemma toErrorString_error: "toErrorString v = Inl ex \<Longrightarrow> ex = TypeError"
proof -
  have ts: "ToString x = Inl ex \<Longrightarrow> ex = TypeError" for x
    by (cases x) (auto simp add: ToString_def split: if_splits symbol.splits)
  assume "toErrorString v = Inl ex"
  then show ?thesis
    unfolding toErrorString_def Error_prototype_toString_def
    by (auto split: if_splits jsval.splits sum.splits symbol.splits dest: ts)
qed

text \<open>
  C6, as the code has it. A falsy error gives the empty string and a string is returned
  unchanged. An object is rendered from its \<^verbatim>\<open>name\<close> and \<^verbatim>\<open>message\<close> alone: two strings
  give \<^verbatim>\<open>name: message\<close> (or the other one when one of them is empty), an object with
  neither gives \<^verbatim>\<open>Error\<close> (a polyfilled symbol is such an object), and an object whose
  name and message are each \<^verbatim>\<open>undefined\<close>, \<^verbatim>\<open>null\<close>, a boolean, a number or a string
  always gives a string. No other property of the object is read. A truthy boolean, a
  truthy number and a native symbol raise a \<^verbatim>\<open>TypeError\<close>.
\<close>

theorem toErrorString_rendering:
  "(\<not> truthy v \<longrightarrow> toErrorString v = Inr [])
   \<and> toErrorString (JStr s) = Inr s
   \<and> (prop_of m (KStr ''name'') = JStr n \<and> prop_of m (KStr ''message'') = JStr x
      \<longrightarrow> toErrorString (JObj m) = Inr (if n = [] then x else if x = [] then n else n @ '': '' @ x))
   \<and> (prop_of m (KStr ''name'') = JUndefined \<and> prop_of m (KStr ''message'') = JUndefined
      \<longrightarrow> toErrorString (JObj m) = Inr ''Error'')
   \<and> (is_plain (prop_of m (KStr ''name'')) \<and> is_plain (prop_of m (KStr ''message''))
      \<longrightarrow> (\<exists>r. toErrorString (JObj m) = Inr r))
   \<and> (m (KStr ''name'') = m' (KStr ''name'') \<and> m (KStr ''message'') = m' (KStr ''message'')
      \<longrightarrow> toErrorString (JObj m) = toErrorString (JObj m'))
   \<and> toErrorString (JSym (PolyfillSymbol p)) = Inr ''Error''
   \<and> (truthy v \<and> ((\<exists>b. v = JBool b) \<or> (\<exists>falsy printed. v = JNum falsy printed)
                   \<or> (\<exists>i d. v = JSym (NativeSymbol i d)))
      \<longrightarrow> toErrorString v = Inl TypeError)"
proof (intro conjI impI)
  assume "\<not> truthy v"
  then show "toErrorString v = Inr []" by (simp add: toErrorString_def)
next
  show "toErrorString (JStr s) = Inr s" by (simp add: toErrorString_def truthy_def)
next
  assume "prop_of m (KStr ''name'') = JStr n \<and> prop_of m (KStr ''message'') = JStr x"
  then show "toErrorString (JObj m) =
      Inr (if n = [] then x else if x = [] then n else n @ '': '' @ x)"
    by (simp only: toErrorString_object Error_prototype_toString_strings)
next
  assume "prop_of m (KStr ''name'') = JUndefined \<and> prop_of m (KStr ''message'') = JUndefined"
  then show "toErrorString (JObj m) = Inr ''Error''"
    by (simp only: toErrorString_object Error_prototype_toString_absent)
next
  assume "is_plain (prop_of m (KStr ''name'')) \<and> is_plain (prop_of m (KStr ''message''))"
  then show "\<exists>r. toErrorString (JObj m) = Inr r"
    by (simp only: toErrorString_object Error_prototype_toString_total)
next
  assume "m (KStr ''name'') = m' (KStr ''name'') \<and> m (KStr ''message'') = m' (KStr ''message'')"
  then show "toErrorString (JObj m) = toErrorString (JObj m')"
    using Error_prototype_toString_fields [of m m'] by (simp only: toErrorString_object)
next
  show "toErrorString (JSym (PolyfillSymbol p)) = Inr ''Error''"
    by (simp add: toErrorString_def truthy_def Error_prototype_toString_def)
next
  assume "truthy v \<and> ((\<exists>b. v = JBool b) \<or> (\<exists>falsy printed. v = JNum falsy printed)
                   \<or> (\<exists>i d. v = JSym (NativeSymbol i d)))"
  then show "toErrorString v = Inl TypeError"
    by (auto simp add: toErrorString_def Error_prototype_toString_def)
qed

theorem toErrorString_rendering_witness:
  "toErrorString JUndefined = Inr []
   \<and> toErrorString (JStr ''boom'') = Inr ''boom''
   \<and> toErrorString (JObj (Map.empty(KStr ''name'' \<mapsto> JStr ''TypeError'',
          KStr ''message'' \<mapsto> JStr ''x is undefined''))) = Inr ''TypeError: x is undefined''
   \<and> toErrorString (JObj (Map.empty(KStr ''recoverable'' \<mapsto> JBool False))) = Inr ''Error''
   \<and> toErrorString (JBool True) = Inl TypeError"
  using toErrorString_rendering [of JUndefined "''boom''"
      "Map.empty(KStr ''name'' \<mapsto> JStr ''TypeError'', KStr ''message'' \<mapsto> JStr ''x is undefined'')"
      "''TypeError''" "''x is undefined''" Map.empty]
    toErrorString_rendering [of "JBool True" "[]"
      "Map.empty(KStr ''recoverable'' \<mapsto> JBool False)" "[]" "[]" Map.empty]
  by (auto simp add: truthy_def prop_of_def is_plain_def)

text \<open>
  C6 as stated fails: the normalization raises. The number 42, \<^verbatim>\<open>true\<close>, and an object
  whose name is a native symbol each end in a \<^verbatim>\<open>TypeError\<close>.
\<close>

theorem toErrorString_raises:
  "toErrorString (JNum False ''42'') = Inl TypeError
   \<and> toErrorString (JBool True) = Inl TypeError
   \<and> toErrorString (JObj (Map.empty(KStr ''name'' \<mapsto> JSym (NativeSymbol 0 ''E'')))) = Inl TypeError"
  by (simp add: toErrorString_def truthy_def Error_prototype_toString_def prop_of_def ToString_def)

subsection \<open>The emit step\<close>

lemma sendEvent_no_scope:
  assumes "app (getState st) = None
           \<or> (\<exists>a. app (getState st) = Some a
                \<and> \<not> truthy (prop_of (props a) (KStr ''externalAPIScope'')))"
  shows "sendEvent e st name data = ([], Inr ())"
  using assms by (auto simp add: sendEvent_def Let_def)

lemma sendEvent_scope:
  assumes "app (getState st) = Some a" and "truthy (prop_of (props a) (KStr ''externalAPIScope''))"
  shows "fst (sendEvent e st name data) =
         [CallSendEvent name data (prop_of (props a) (KStr ''externalAPIScope''))]"
    and "snd (sendEvent e st name data) =
         (case ExternalAPI_sendEvent e name data (prop_of (props a) (KStr ''externalAPIScope'')) of
            None \<Rightarrow> Inr () | Some ex \<Rightarrow> Inl ex)"
  using assms by (simp_all add: sendEvent_def Let_def)

lemma sendEvent_calls:
  "fst (sendEvent e st name data) = [] \<or>
   (\<exists>a. app (getState st) = Some a \<and> truthy (prop_of (props a) (KStr ''externalAPIScope''))
      \<and> fst (sendEvent e st name data) =
          [CallSendEvent name data (prop_of (props a) (KStr ''externalAPIScope''))])"
  by (cases "app (getState st)") (simp_all add: sendEvent_def Let_def)

lemma sendEvent_returns:
  assumes "\<forall>n d s. ExternalAPI_sendEvent e n d s = None"
  shows "snd (sendEvent e st name data) = Inr ()"
  using assms by (cases "app (getState st)") (simp_all add: sendEvent_def Let_def)


subsection \<open>Conference events\<close>

text \<open>What \<^verbatim>\<open>conference[JITSI_CONFERENCE_URL_KEY]\<close> reads from a truthy conference.\<close>

lemma get_member_truthy:
  "truthy c \<Longrightarrow> get_member c k = Inr (case c of JObj m \<Rightarrow> prop_of m k | _ \<Rightarrow> JUndefined)"
  by (cases c) (simp_all add: get_member_def truthy_def)

text \<open>What \<^verbatim>\<open>error.recoverable\<close> reads from an error that is there.\<close>

lemma get_member_present:
  assumes "v \<noteq> JUndefined" and "v \<noteq> JNull"
  shows "get_member v k = Inr (case v of JObj m \<Rightarrow> prop_of m k | _ \<Rightarrow> JUndefined)"
  using assms by (cases v) (simp_all add: get_member_def)

lemma get_member_absent:
  assumes "v = JUndefined \<or> v = JNull"
  shows "get_member v k = Inl TypeError"
  using assms by (auto simp add: get_member_def)

lemma sendConferenceEvent_symbol:
  assumes "prop_of action (KStr ''type'') = JSym y"
    and "getSymbolDescription (JSym y) = Inr name"
  shows "sendConferenceEvent e st action =
         sendEvent e st name
           (if truthy (prop_of action (KStr ''conference''))
            then (action(KStr ''conference'' := None, KStr ''type'' := None))
                   (KStr ''url'' \<mapsto> toURLString e
                      (case prop_of action (KStr ''conference'') of
                         JObj m \<Rightarrow> prop_of m (property_key (JITSI_CONFERENCE_URL_KEY e))
                       | _ \<Rightarrow> JUndefined))
            else action(KStr ''conference'' := None, KStr ''type'' := None))"
  using assms by (simp add: sendConferenceEvent_def Let_def get_member_truthy)

lemma sendConferenceEvent_data:
  assumes "prop_of action (KStr ''type'') = JSym y"
    and "app (getState st) = Some a"
    and "truthy (prop_of (props a) (KStr ''externalAPIScope''))"
  shows "\<exists>name data.
      getSymbolDescription (JSym y) = Inr name
      \<and> fst (sendConferenceEvent e st action) =
          [CallSendEvent name data (prop_of (props a) (KStr ''externalAPIScope''))]
      \<and> data (KStr ''conference'') = None \<and> data (KStr ''type'') = None
      \<and> (truthy (prop_of action (KStr ''conference''))
         \<longrightarrow> data (KStr ''url'') = Some (toURLString e
               (case prop_of action (KStr ''conference'') of
                  JObj c \<Rightarrow> prop_of c (property_key (JITSI_CONFERENCE_URL_KEY e)) | _ \<Rightarrow> JUndefined)))
      \<and> (\<not> truthy (prop_of action (KStr ''conference''))
         \<longrightarrow> data (KStr ''url'') = action (KStr ''url''))
      \<and> (\<forall>k. k \<noteq> KStr ''conference'' \<and> k \<noteq> KStr ''type'' \<and> k \<noteq> KStr ''url''
            \<longrightarrow> data k = action k)"
proof -
  obtain name where name: "getSymbolDescription (JSym y) = Inr name"
    using symbol_description by blast
  show ?thesis
    unfolding sendConferenceEvent_symbol [OF assms(1) name]
    using name by (simp add: sendEvent_scope [OF assms(2,3)])
qed

lemma sendConferenceEvent_returns:
  assumes "prop_of action (KStr ''type'') = JSym y"
    and "\<forall>n d s. ExternalAPI_sendEvent e n d s = None"
  shows "snd (sendConferenceEvent e st action) = Inr ()"
proof -
  obtain name where name: "getSymbolDescription (JSym y) = Inr name"
    using symbol_description by blast
  show ?thesis
    unfolding sendConferenceEvent_symbol [OF assms(1) name]
    by (rule sendEvent_returns [OF assms(2)])
qed

lemma sendConferenceEvent_emits:
  "fst (sendConferenceEvent e st action) = []
   \<or> (\<exists>name data. getSymbolDescription (prop_of action (KStr ''type'')) = Inr name
        \<and> fst (sendConferenceEvent e st action) = fst (sendEvent e st name data))"
  by (auto simp add: sendConferenceEvent_def Let_def split: sum.splits)

text \<open>Name and scope of a conference event depend on the type of the action alone.\<close>

lemma sendConferenceEvent_names:
  "map (\<lambda>(n, d, s). (n, s)) (host_calls (fst (sendConferenceEvent e st action)))
   = (case getSymbolDescription (prop_of action (KStr ''type'')) of
        Inl ex \<Rightarrow> []
      | Inr name \<Rightarrow>
          (case app (getState st) of
             None \<Rightarrow> []
           | Some a \<Rightarrow>
               if truthy (prop_of (props a) (KStr ''externalAPIScope''))
               then [(name, prop_of (props a) (KStr ''externalAPIScope''))] else []))"
  unfolding sendConferenceEvent_def sendEvent_def Let_def
  by (simp add: get_member_truthy split: sum.splits option.splits)




subsection \<open>The branches of the switch\<close>

lemma switch_failed:
  assumes "prop_of action (KStr ''type'') = JSym (CONFERENCE_FAILED e)"
  shows "switch_action e st action =
         (case get_member (prop_of action (KStr ''error'')) (KStr ''recoverable'') of
            Inl ex \<Rightarrow> ([], Inl ex)
          | Inr recoverable \<Rightarrow>
              if truthy recoverable then ([], Inr ())
              else (case toErrorString (prop_of action (KStr ''error'')) of
                      Inl ex \<Rightarrow> ([], Inl ex)
                    | Inr s \<Rightarrow> sendConferenceEvent e st (action(KStr ''error'' \<mapsto> JStr s))))"
  using assms by (simp add: switch_action_def Let_def split: sum.splits)

lemma switch_lifecycle:
  assumes "prop_of action (KStr ''type'') = JSym y"
    and "y \<noteq> CONFERENCE_FAILED e"
    and "y = CONFERENCE_JOINED e \<or> y = CONFERENCE_LEFT e
         \<or> y = CONFERENCE_WILL_JOIN e \<or> y = CONFERENCE_WILL_LEAVE e"
  shows "switch_action e st action = sendConferenceEvent e st action"
  using assms by (auto simp add: switch_action_def Let_def)

lemma switch_config:
  assumes "prop_of action (KStr ''type'') = JSym (LOAD_CONFIG_ERROR e)"
    and "LOAD_CONFIG_ERROR e \<noteq> CONFERENCE_FAILED e"
    and "LOAD_CONFIG_ERROR e \<noteq> CONFERENCE_JOINED e" and "LOAD_CONFIG_ERROR e \<noteq> CONFERENCE_LEFT e"
    and "LOAD_CONFIG_ERROR e \<noteq> CONFERENCE_WILL_JOIN e"
    and "LOAD_CONFIG_ERROR e \<noteq> CONFERENCE_WILL_LEAVE e"
    and "getSymbolDescription (JSym (LOAD_CONFIG_ERROR e)) = Inr name"
  shows "switch_action e st action =
         (case toErrorString (prop_of action (KStr ''error'')) of
            Inl ex \<Rightarrow> ([], Inl ex)
          | Inr s \<Rightarrow>
              sendEvent e st name
                (Map.empty(KStr ''error'' \<mapsto> JStr s,
                           KStr ''url'' \<mapsto> toURLString e (prop_of action (KStr ''locationURL'')))))"
  using assms by (simp add: switch_action_def Let_def)

lemma switch_unmatched:
  assumes "prop_of action (KStr ''type'') \<noteq> JSym (CONFERENCE_FAILED e)"
    and "prop_of action (KStr ''type'') \<noteq> JSym (CONFERENCE_JOINED e)"
    and "prop_of action (KStr ''type'') \<noteq> JSym (CONFERENCE_LEFT e)"
    and "prop_of action (KStr ''type'') \<noteq> JSym (CONFERENCE_WILL_JOIN e)"
    and "prop_of action (KStr ''type'') \<noteq> JSym (CONFERENCE_WILL_LEAVE e)"
    and "prop_of action (KStr ''type'') \<noteq> JSym (LOAD_CONFIG_ERROR e)"
  shows "switch_action e st action = ([], Inr ())"
  using assms by (simp add: switch_action_def Let_def)

text \<open>
  The four ways through the switch, in the order of its cases: the failure branch, a
  lifecycle type, the configuration error, and no match.
\<close>

lemma switch_cases [case_names failure lifecycle config unmatched]:
  fixes e :: env and st :: store and action :: obj
  obtains "prop_of action (KStr ''type'') = JSym (CONFERENCE_FAILED e)"
  | y where "prop_of action (KStr ''type'') = JSym y"
      and "prop_of action (KStr ''type'') \<noteq> JSym (CONFERENCE_FAILED e)"
      and "switch_action e st action = sendConferenceEvent e st action"
      and "prop_of action (KStr ''type'') = JSym (CONFERENCE_JOINED e)
           \<or> prop_of action (KStr ''type'') = JSym (CONFERENCE_LEFT e)
           \<or> prop_of action (KStr ''type'') = JSym (CONFERENCE_WILL_JOIN e)
           \<or> prop_of action (KStr ''type'') = JSym (CONFERENCE_WILL_LEAVE e)"
  | name where "prop_of action (KStr ''type'') = JSym (LOAD_CONFIG_ERROR e)"
      and "prop_of action (KStr ''type'') \<noteq> JSym (CONFERENCE_FAILED e)"
      and "getSymbolDescription (prop_of action (KStr ''type'')) = Inr name"
      and "switch_action e st action =
           (case toErrorString (prop_of action (KStr ''error'')) of
              Inl ex \<Rightarrow> ([], Inl ex)
            | Inr s \<Rightarrow>
                sendEvent e st name
                  (Map.empty(KStr ''error'' \<mapsto> JStr s,
                     KStr ''url'' \<mapsto> toURLString e (prop_of action (KStr ''locationURL'')))))"
  | "switch_action e st action = ([], Inr ())"
proof -
  let ?type = "prop_of action (KStr ''type'')"
  let ?lifecycle = "?type = JSym (CONFERENCE_JOINED e) \<or> ?type = JSym (CONFERENCE_LEFT e)
      \<or> ?type = JSym (CONFERENCE_WILL_JOIN e) \<or> ?type = JSym (CONFERENCE_WILL_LEAVE e)"
  show thesis
  proof (cases "?type = JSym (CONFERENCE_FAILED e)")
    case True
    then show thesis by (rule that(1))
  next
    case other: False
    show thesis
    proof (cases ?lifecycle)
      case True
      then obtain y where "?type = JSym y" by auto
      moreover have "switch_action e st action = sendConferenceEvent e st action"
        using other True unfolding switch_action_def Let_def by simp
      ultimately show thesis using other True by (intro that(2))
    next
      case none: False
      show thesis
      proof (cases "?type = JSym (LOAD_CONFIG_ERROR e)")
        case True
        obtain name where name: "getSymbolDescription ?type = Inr name"
          using symbol_description True by auto
        have "switch_action e st action =
           (case toErrorString (prop_of action (KStr ''error'')) of
              Inl ex \<Rightarrow> ([], Inl ex)
            | Inr s \<Rightarrow>
                sendEvent e st name
                  (Map.empty(KStr ''error'' \<mapsto> JStr s,
                     KStr ''url'' \<mapsto> toURLString e (prop_of action (KStr ''locationURL'')))))"
          using other none True name unfolding switch_action_def Let_def by simp
        with True other name show thesis by (intro that(3))
      next
        case False
        then have "switch_action e st action = ([], Inr ())"
          using other none unfolding switch_action_def Let_def by simp
        then show thesis by (rule that(4))
      qed
    qed
  qed
qed

text \<open>Whatever the branch, the switch makes no call or the one call of an emit step.\<close>

lemma switch_emits:
  "fst (switch_action e st action) = []
   \<or> (\<exists>name data. getSymbolDescription (prop_of action (KStr ''type'')) = Inr name
        \<and> fst (switch_action e st action) = fst (sendEvent e st name data))"
proof (cases rule: switch_cases [where e = e and st = st and action = action])
  case failure
  have sent: "fst (sendConferenceEvent e st (action(KStr ''error'' \<mapsto> JStr s))) = []
      \<or> (\<exists>name data. getSymbolDescription (prop_of action (KStr ''type'')) = Inr name
           \<and> fst (sendConferenceEvent e st (action(KStr ''error'' \<mapsto> JStr s)))
               = fst (sendEvent e st name data))" for s
    using sendConferenceEvent_emits [of e st "action(KStr ''error'' \<mapsto> JStr s)"]
    by (simp add: prop_of_def)
  show ?thesis
  proof (cases "toErrorString (prop_of action (KStr ''error''))")
    case (Inl ex)
    then show ?thesis
      by (simp add: switch_failed [OF failure] split: sum.splits)
  next
    case (Inr s)
    then have "fst (switch_action e st action) = []
        \<or> switch_action e st action
           = sendConferenceEvent e st (action(KStr ''error'' \<mapsto> JStr s))"
      by (simp add: switch_failed [OF failure] split: sum.splits)
    then show ?thesis using sent [of s] by auto
  qed
next
  case (lifecycle y)
  then show ?thesis using sendConferenceEvent_emits [of e st action] by simp
next
  case (config name)
  then show ?thesis by (auto split: sum.splits)
next
  case unmatched
  then show ?thesis by simp
qed

lemma switch_host_calls:
  "host_calls (fst (switch_action e st action)) = []
   \<or> (\<exists>name data a. app (getState st) = Some a
        \<and> truthy (prop_of (props a) (KStr ''externalAPIScope''))
        \<and> getSymbolDescription (prop_of action (KStr ''type'')) = Inr name
        \<and> fst (switch_action e st action) =
            [CallSendEvent name data (prop_of (props a) (KStr ''externalAPIScope''))])"
  using switch_emits [of e st action] sendEvent_calls [of e st]
  by (metis host_calls.simps(1))

lemma switch_no_next: "CallNext a \<notin> set (fst (switch_action e st action))"
  using switch_emits [of e st action] sendEvent_calls [of e st]
  by (metis call.distinct(1) empty_iff empty_set set_ConsD)


text \<open>
  With a host that accepts every event, the switch returns normally or throws a
  \<^verbatim>\<open>TypeError\<close>, and which of the two is decided by the type and the error of the action.
\<close>

lemma switch_outcome:
  assumes host: "\<forall>n d s. ExternalAPI_sendEvent e n d s = None"
  shows "snd (switch_action e st action) =
         (if (if prop_of action (KStr ''type'') = JSym (CONFERENCE_FAILED e)
              then prop_of action (KStr ''error'') \<noteq> JUndefined
                   \<and> prop_of action (KStr ''error'') \<noteq> JNull
                   \<and> ((\<exists>m. prop_of action (KStr ''error'') = JObj m
                            \<and> truthy (prop_of m (KStr ''recoverable'')))
                       \<or> (\<exists>s. toErrorString (prop_of action (KStr ''error'')) = Inr s))
              else if prop_of action (KStr ''type'') = JSym (CONFERENCE_JOINED e)
                      \<or> prop_of action (KStr ''type'') = JSym (CONFERENCE_LEFT e)
                      \<or> prop_of action (KStr ''type'') = JSym (CONFERENCE_WILL_JOIN e)
                      \<or> prop_of action (KStr ''type'') = JSym (CONFERENCE_WILL_LEAVE e)
              then True
              else if prop_of action (KStr ''type'') = JSym (LOAD_CONFIG_ERROR e)
              then (\<exists>s. toErrorString (prop_of action (KStr ''error'')) = Inr s)
              else True)
          then Inr () else Inl TypeError)"
proof -
  let ?type = "prop_of action (KStr ''type'')"
  let ?error = "prop_of action (KStr ''error'')"
  let ?lifecycle = "?type = JSym (CONFERENCE_JOINED e) \<or> ?type = JSym (CONFERENCE_LEFT e)
      \<or> ?type = JSym (CONFERENCE_WILL_JOIN e) \<or> ?type = JSym (CONFERENCE_WILL_LEAVE e)"
  show ?thesis
  proof (cases "?type = JSym (CONFERENCE_FAILED e)")
    case failure: True
    show ?thesis
    proof (cases "?error = JUndefined \<or> ?error = JNull")
      case True
      then show ?thesis
        using failure get_member_absent [OF True, of "KStr ''recoverable''"]
        by (auto simp add: switch_failed)
    next
      case False
      then have present: "?error \<noteq> JUndefined" "?error \<noteq> JNull" by simp_all
      let ?r = "case ?error of JObj m \<Rightarrow> prop_of m (KStr ''recoverable'') | _ \<Rightarrow> JUndefined"
      have r: "get_member ?error (KStr ''recoverable'') = Inr ?r"
        using present by (rule get_member_present)
      have flag: "truthy ?r \<longleftrightarrow> (\<exists>m. ?error = JObj m \<and> truthy (prop_of m (KStr ''recoverable'')))"
        by (cases ?error) (simp_all add: truthy_def)
      show ?thesis
      proof (cases "truthy ?r")
        case True
        then show ?thesis
          using failure present flag by (simp add: switch_failed r)
      next
        case falsy: False
        show ?thesis
        proof (cases "toErrorString ?error")
          case (Inl ex)
          then have "ex = TypeError" by (rule toErrorString_error)
          then show ?thesis
            using failure present flag falsy Inl by (simp add: switch_failed r)
        next
          case (Inr s)
          have "prop_of (action(KStr ''error'' \<mapsto> JStr s)) (KStr ''type'')
                = JSym (CONFERENCE_FAILED e)"
            using failure by (simp add: prop_of_def)
          then have "snd (sendConferenceEvent e st (action(KStr ''error'' \<mapsto> JStr s))) = Inr ()"
            using host by (rule sendConferenceEvent_returns)
          then show ?thesis
            using failure present falsy Inr by (simp add: switch_failed r)
        qed
      qed
    qed
  next
    case other: False
    show ?thesis
    proof (cases ?lifecycle)
      case True
      then obtain y where y: "?type = JSym y" by auto
      have "switch_action e st action = sendConferenceEvent e st action"
        using other True unfolding switch_action_def Let_def by simp
      then show ?thesis
        using other True sendConferenceEvent_returns [OF y host] by simp
    next
      case none: False
      show ?thesis
      proof (cases "?type = JSym (LOAD_CONFIG_ERROR e)")
        case True
        obtain name where name: "getSymbolDescription ?type = Inr name"
          using symbol_description True by auto
        have switch: "switch_action e st action =
           (case toErrorString ?error of
              Inl ex \<Rightarrow> ([], Inl ex)
            | Inr s \<Rightarrow>
                sendEvent e st name
                  (Map.empty(KStr ''error'' \<mapsto> JStr s,
                     KStr ''url'' \<mapsto> toURLString e (prop_of action (KStr ''locationURL'')))))"
          using other none True name unfolding switch_action_def Let_def by simp
        show ?thesis
        proof (cases "toErrorString ?error")
          case (Inl ex)
          then have "ex = TypeError" by (rule toErrorString_error)
          then show ?thesis
            using other none True Inl by (simp add: switch)
        next
          case (Inr s)
          then show ?thesis
            using other none True sendEvent_returns [OF host] by (simp add: switch)
        qed
      next
        case False
        then have "switch_action e st action = ([], Inr ())"
          using other none unfolding switch_action_def Let_def by simp
        then show ?thesis
          using other none False by simp
      qed
    qed
  qed
qed




subsection \<open>The middleware around the switch\<close>

lemma middleware_calls:
  "fst (middleware e st next action) =
   CallNext action # (case next action of Inl ex \<Rightarrow> [] | Inr v \<Rightarrow> fst (switch_action e st action))"
  by (cases "switch_action e st action")
     (simp add: middleware_def split: sum.splits prod.splits)

lemma middleware_result:
  "snd (middleware e st next action) =
   (case next action of
      Inl ex \<Rightarrow> Inl ex
    | Inr v \<Rightarrow> (case snd (switch_action e st action) of Inl ex \<Rightarrow> Inl ex | Inr u \<Rightarrow> Inr v))"
  by (cases "switch_action e st action")
     (simp add: middleware_def split: sum.splits prod.splits)

lemma middleware_host_calls:
  "host_calls (fst (middleware e st next action)) =
   (case next action of Inl ex \<Rightarrow> [] | Inr v \<Rightarrow> host_calls (fst (switch_action e st action)))"
  by (simp add: middleware_calls split: sum.splits)

subsection \<open>Running the example installation\<close>

lemma example_constants:
  "CONFERENCE_FAILED example_env = NativeSymbol 0 ''CONFERENCE_FAILED''"
  "CONFERENCE_JOINED example_env = NativeSymbol 1 ''CONFERENCE_JOINED''"
  "CONFERENCE_LEFT example_env = NativeSymbol 2 ''CONFERENCE_LEFT''"
  "CONFERENCE_WILL_JOIN example_env = NativeSymbol 3 ''CONFERENCE_WILL_JOIN''"
  "CONFERENCE_WILL_LEAVE example_env = NativeSymbol 4 ''CONFERENCE_WILL_LEAVE''"
  "JITSI_CONFERENCE_URL_KEY example_env = NativeSymbol 5 ''url''"
  "LOAD_CONFIG_ERROR example_env = NativeSymbol 6 ''LOAD_CONFIG_ERROR''"
  "toURLString example_env = example_toURLString"
  "ExternalAPI_sendEvent example_env = (\<lambda>name data scope. None)"
  by (simp_all add: example_env_def)

lemmas run_simps =
  switch_action_def sendConferenceEvent_def sendEvent_def Let_def example_constants
  mounted_def unmounted_def prop_of_def truthy_def get_member_def native_description
  startsWith_def example_toURLString_def toErrorString_def property_key_def

lemma joined_mounted:
  "switch_action example_env (mounted ''room1'') joined_action =
   ([CallSendEvent ''CONFERENCE_JOINED''
       (Map.empty(KStr ''url'' \<mapsto> JStr ''https://example.com/room'')) (JStr ''room1'')], Inr ())"
  by (simp add: joined_action_def run_simps fun_eq_iff)

lemma failed_action_fields:
  "failed_action error (KStr ''type'') = Some (JSym (NativeSymbol 0 ''CONFERENCE_FAILED''))"
  "failed_action error (KStr ''error'') = Some error"
  by (simp_all add: failed_action_def)


subsection \<open>The emit step without a destination\<close>

text \<open>
  C7. When no surface is mounted, or the mounted one has no truthy
  \<^verbatim>\<open>externalAPIScope\<close>, the emit step makes no call and returns normally, whatever the
  name and the data; so the switch and the middleware call the host for no action. And
  every call to the host that the middleware does make carries the truthy scope of the
  mounted surface.
\<close>

theorem sendEvent_needs_scope:
  "((app (getState st) = None
      \<or> (\<exists>a. app (getState st) = Some a \<and> \<not> truthy (prop_of (props a) (KStr ''externalAPIScope''))))
     \<longrightarrow> sendEvent e st name data = ([], Inr ())
         \<and> host_calls (fst (switch_action e st action)) = []
         \<and> host_calls (fst (middleware e st next action)) = [])
   \<and> ((n, d, s) \<in> set (host_calls (fst (middleware e st next action)))
     \<longrightarrow> (\<exists>a. app (getState st) = Some a \<and> s = prop_of (props a) (KStr ''externalAPIScope'')
            \<and> truthy s))"
proof (intro conjI impI)
  assume none: "app (getState st) = None
      \<or> (\<exists>a. app (getState st) = Some a \<and> \<not> truthy (prop_of (props a) (KStr ''externalAPIScope'')))"
  show "sendEvent e st name data = ([], Inr ())"
    using none by (rule sendEvent_no_scope)
  show switch: "host_calls (fst (switch_action e st action)) = []"
    using switch_host_calls [of e st action] none by auto
  show "host_calls (fst (middleware e st next action)) = []"
    by (simp add: middleware_host_calls switch split: sum.splits)
next
  assume "(n, d, s) \<in> set (host_calls (fst (middleware e st next action)))"
  then have "(n, d, s) \<in> set (host_calls (fst (switch_action e st action)))"
    by (simp add: middleware_host_calls split: sum.splits)
  then show "\<exists>a. app (getState st) = Some a \<and> s = prop_of (props a) (KStr ''externalAPIScope'')
      \<and> truthy s"
    using switch_host_calls [of e st action] by auto
qed

theorem sendEvent_needs_scope_witness:
  "sendEvent example_env unmounted ''CONFERENCE_JOINED'' Map.empty = ([], Inr ())
   \<and> host_calls (fst (middleware example_env unmounted example_next joined_action)) = []
   \<and> app (getState (mounted ''room1'')) =
       Some \<lparr> props = Map.empty(KStr ''externalAPIScope'' \<mapsto> JStr ''room1'') \<rparr>
   \<and> truthy (JStr ''room1'')"
  using sendEvent_needs_scope [of unmounted example_env "''CONFERENCE_JOINED''" Map.empty
      joined_action example_next]
    sendEvent_needs_scope [of "mounted ''room1''" example_env "[]" Map.empty joined_action
      example_next "''CONFERENCE_JOINED''"
      "Map.empty(KStr ''url'' \<mapsto> JStr ''https://example.com/room'')" "JStr ''room1''"]
  by (simp add: unmounted_def mounted_def middleware_host_calls joined_mounted example_next_def
      truthy_def)

subsection \<open>The middleware observes\<close>

text \<open>
  C8, as the code has it. The middleware calls \<^verbatim>\<open>next\<close> first, once, with the action it
  was given, and makes no other call to it. When \<^verbatim>\<open>next\<close> throws, nothing else happens and
  the exception is the middleware's. Whenever the middleware returns, it returns the value
  of \<^verbatim>\<open>next\<close>. When \<^verbatim>\<open>next\<close> returns and the host accepts every event, the middleware
  returns that value or throws a \<^verbatim>\<open>TypeError\<close>, and it returns in these cases and no
  other: for a \<^verbatim>\<open>CONFERENCE_FAILED\<close> action, when the error is neither \<^verbatim>\<open>undefined\<close> nor
  \<^verbatim>\<open>null\<close> and either is an object with a truthy \<^verbatim>\<open>recoverable\<close> or can be turned into a
  string; for a lifecycle action, always; for a \<^verbatim>\<open>LOAD_CONFIG_ERROR\<close> action, when the
  error can be turned into a string; for an action it does not match, always.
\<close>

theorem middleware_observes:
  "(\<exists>cs. fst (middleware e st next action) = CallNext action # cs \<and> (\<forall>a. CallNext a \<notin> set cs))
   \<and> (next action = Inl ex \<longrightarrow> middleware e st next action = ([CallNext action], Inl ex))
   \<and> (snd (middleware e st next action) = Inr v \<longrightarrow> next action = Inr v)
   \<and> (next action = Inr v \<and> (\<forall>n d s. ExternalAPI_sendEvent e n d s = None)
      \<longrightarrow> snd (middleware e st next action) =
          (if (if prop_of action (KStr ''type'') = JSym (CONFERENCE_FAILED e)
               then prop_of action (KStr ''error'') \<noteq> JUndefined
                    \<and> prop_of action (KStr ''error'') \<noteq> JNull
                    \<and> ((\<exists>m. prop_of action (KStr ''error'') = JObj m
                             \<and> truthy (prop_of m (KStr ''recoverable'')))
                        \<or> (\<exists>s. toErrorString (prop_of action (KStr ''error'')) = Inr s))
               else if prop_of action (KStr ''type'') = JSym (CONFERENCE_JOINED e)
                       \<or> prop_of action (KStr ''type'') = JSym (CONFERENCE_LEFT e)
                       \<or> prop_of action (KStr ''type'') = JSym (CONFERENCE_WILL_JOIN e)
                       \<or> prop_of action (KStr ''type'') = JSym (CONFERENCE_WILL_LEAVE e)
               then True
               else if prop_of action (KStr ''type'') = JSym (LOAD_CONFIG_ERROR e)
               then (\<exists>s. toErrorString (prop_of action (KStr ''error'')) = Inr s)
               else True)
           then Inr v else Inl TypeError))"
proof (intro conjI impI)
  show "\<exists>cs. fst (middleware e st next action) = CallNext action # cs \<and> (\<forall>a. CallNext a \<notin> set cs)"
    using switch_no_next [of _ e st action]
    by (simp add: middleware_calls split: sum.splits)
next
  assume "next action = Inl ex"
  then show "middleware e st next action = ([CallNext action], Inl ex)"
    by (simp add: middleware_def)
next
  assume "snd (middleware e st next action) = Inr v"
  then show "next action = Inr v"
    by (simp add: middleware_result split: sum.splits)
next
  assume h: "next action = Inr v \<and> (\<forall>n d s. ExternalAPI_sendEvent e n d s = None)"
  then have host: "\<forall>n d s. ExternalAPI_sendEvent e n d s = None" by simp
  show "snd (middleware e st next action) =
          (if (if prop_of action (KStr ''type'') = JSym (CONFERENCE_FAILED e)
               then prop_of action (KStr ''error'') \<noteq> JUndefined
                    \<and> prop_of action (KStr ''error'') \<noteq> JNull
                    \<and> ((\<exists>m. prop_of action (KStr ''error'') = JObj m
                             \<and> truthy (prop_of m (KStr ''recoverable'')))
                        \<or> (\<exists>s. toErrorString (prop_of action (KStr ''error'')) = Inr s))
               else if prop_of action (KStr ''type'') = JSym (CONFERENCE_JOINED e)
                       \<or> prop_of action (KStr ''type'') = JSym (CONFERENCE_LEFT e)
                       \<or> prop_of action (KStr ''type'') = JSym (CONFERENCE_WILL_JOIN e)
                       \<or> prop_of action (KStr ''type'') = JSym (CONFERENCE_WILL_LEAVE e)
               then True
               else if prop_of action (KStr ''type'') = JSym (LOAD_CONFIG_ERROR e)
               then (\<exists>s. toErrorString (prop_of action (KStr ''error'')) = Inr s)
               else True)
           then Inr v else Inl TypeError)"
    unfolding middleware_result switch_outcome [OF host]
    using h by simp
qed

theorem middleware_observes_witness:
  "middleware example_env (mounted ''room1'') example_next joined_action =
   ([CallNext joined_action,
     CallSendEvent ''CONFERENCE_JOINED''
       (Map.empty(KStr ''url'' \<mapsto> JStr ''https://example.com/room'')) (JStr ''room1'')],
    Inr (JObj joined_action))
   \<and> middleware example_env (mounted ''room1'') (\<lambda>a. Inl (Thrown (JStr ''reducer failed'')))
        joined_action
      = ([CallNext joined_action], Inl (Thrown (JStr ''reducer failed'')))
   \<and> snd (middleware example_env (mounted ''room1'') example_next (failed_action JNull))
      = Inl TypeError"
proof -
  have type: "prop_of joined_action (KStr ''type'') = JSym (NativeSymbol 1 ''CONFERENCE_JOINED'')"
    by (simp add: joined_action_def prop_of_def)
  have "snd (middleware example_env (mounted ''room1'') example_next joined_action)
        = Inr (JObj joined_action)"
    using middleware_observes [of example_env "mounted ''room1''" example_next joined_action
        "TypeError" "JObj joined_action"]
    by (simp add: type example_next_def example_constants)
  moreover have "fst (middleware example_env (mounted ''room1'') example_next joined_action) =
     [CallNext joined_action,
      CallSendEvent ''CONFERENCE_JOINED''
        (Map.empty(KStr ''url'' \<mapsto> JStr ''https://example.com/room'')) (JStr ''room1'')]"
    by (simp add: middleware_calls joined_mounted example_next_def)
  moreover have "middleware example_env (mounted ''room1'')
        (\<lambda>a. Inl (Thrown (JStr ''reducer failed''))) joined_action
      = ([CallNext joined_action], Inl (Thrown (JStr ''reducer failed'')))"
    using middleware_observes [of example_env "mounted ''room1''"
        "\<lambda>a. Inl (Thrown (JStr ''reducer failed''))" joined_action
        "Thrown (JStr ''reducer failed'')"]
    by simp
  moreover have "snd (middleware example_env (mounted ''room1'') example_next (failed_action JNull))
      = Inl TypeError"
    using middleware_observes [of example_env "mounted ''room1''" example_next
        "failed_action JNull" "TypeError" "JObj (failed_action JNull)"]
    by (simp add: example_next_def example_constants prop_of_def failed_action_fields)
  ultimately show ?thesis
    by (simp add: prod_eq_iff)
qed

text \<open>
  C8 as stated fails: the middleware does not return what \<^verbatim>\<open>next\<close> returned for every
  action. For a \<^verbatim>\<open>CONFERENCE_FAILED\<close> action without an error, \<^verbatim>\<open>next\<close> returns and the
  middleware then throws a \<^verbatim>\<open>TypeError\<close>.
\<close>

theorem middleware_throws_after_next:
  "example_next (failed_action JUndefined) = Inr (JObj (failed_action JUndefined))
   \<and> middleware example_env (mounted ''room1'') example_next (failed_action JUndefined)
      = ([CallNext (failed_action JUndefined)], Inl TypeError)"
  by (simp add: middleware_def example_next_def failed_action_def run_simps)

subsection \<open>Recoverable failures\<close>

text \<open>
  C1, as the code has it. A \<^verbatim>\<open>CONFERENCE_FAILED\<close> action whose \<^verbatim>\<open>error\<close> is an object
  with a truthy \<^verbatim>\<open>recoverable\<close> produces no event, whatever its other fields and whatever
  the store: the switch makes no call and the middleware returns what \<^verbatim>\<open>next\<close> returned.
\<close>

theorem recoverable_error_suppressed:
  "prop_of action (KStr ''type'') = JSym (CONFERENCE_FAILED e)
   \<and> prop_of action (KStr ''error'') = JObj m \<and> truthy (prop_of m (KStr ''recoverable''))
   \<longrightarrow> switch_action e st action = ([], Inr ())
       \<and> host_calls (fst (middleware e st next action)) = []
       \<and> (next action = Inr v \<longrightarrow> middleware e st next action = ([CallNext action], Inr v))"
proof (intro impI)
  assume a: "prop_of action (KStr ''type'') = JSym (CONFERENCE_FAILED e)
   \<and> prop_of action (KStr ''error'') = JObj m \<and> truthy (prop_of m (KStr ''recoverable''))"
  then have switch: "switch_action e st action = ([], Inr ())"
    by (simp add: switch_failed get_member_def)
  show "switch_action e st action = ([], Inr ())
       \<and> host_calls (fst (middleware e st next action)) = []
       \<and> (next action = Inr v \<longrightarrow> middleware e st next action = ([CallNext action], Inr v))"
    by (simp add: switch middleware_host_calls middleware_def split: sum.splits)
qed

theorem recoverable_error_suppressed_witness:
  "middleware example_env (mounted ''room1'') example_next (failed_action password_required)
   = ([CallNext (failed_action password_required)],
      Inr (JObj (failed_action password_required)))"
  using recoverable_error_suppressed [of "failed_action password_required" example_env
      "Map.empty(KStr ''name'' \<mapsto> JStr ''conference.passwordRequired'',
         KStr ''recoverable'' \<mapsto> JBool True)"
      "mounted ''room1''" example_next "JObj (failed_action password_required)"]
  by (simp add: failed_action_fields password_required_def example_constants prop_of_def
      truthy_def example_next_def)

text \<open>
  C1 as stated fails: \<^verbatim>\<open>recoverable\<close> on the action itself is not consulted. With the
  error \<^verbatim>\<open>boom\<close> and \<^verbatim>\<open>recoverable: true\<close> beside it, the event is sent, and the flag
  travels in its data.
\<close>

theorem action_recoverable_not_consulted:
  "fst (middleware example_env (mounted ''room1'') example_next
          ((failed_action (JStr ''boom''))(KStr ''recoverable'' \<mapsto> JBool True)))
   = [CallNext ((failed_action (JStr ''boom''))(KStr ''recoverable'' \<mapsto> JBool True)),
      CallSendEvent ''CONFERENCE_FAILED''
        (Map.empty(KStr ''error'' \<mapsto> JStr ''boom'', KStr ''recoverable'' \<mapsto> JBool True))
        (JStr ''room1'')]"
  by (simp add: middleware_calls example_next_def failed_action_def run_simps fun_eq_iff)

subsection \<open>The failure branch reads the error\<close>

text \<open>
  C10. A \<^verbatim>\<open>CONFERENCE_FAILED\<close> action whose \<^verbatim>\<open>error\<close> is \<^verbatim>\<open>undefined\<close> (or missing) or
  \<^verbatim>\<open>null\<close> makes the switch throw a \<^verbatim>\<open>TypeError\<close> before any call, and the middleware
  with it once \<^verbatim>\<open>next\<close> has returned. The flag is the error's: an error object with a
  truthy \<^verbatim>\<open>recoverable\<close> ends the branch with no event. A \<^verbatim>\<open>recoverable\<close> field of the
  action is not consulted: setting, changing or removing it changes neither whether the
  host is called nor the name and scope of the call, nor (with a host that accepts every
  event) whether the switch returns or throws.
\<close>

theorem failure_reads_error:
  "(prop_of action (KStr ''type'') = JSym (CONFERENCE_FAILED e)
    \<and> (prop_of action (KStr ''error'') = JUndefined \<or> prop_of action (KStr ''error'') = JNull)
    \<longrightarrow> switch_action e st action = ([], Inl TypeError)
        \<and> (next action = Inr v
           \<longrightarrow> middleware e st next action = ([CallNext action], Inl TypeError)))
   \<and> (prop_of action (KStr ''type'') = JSym (CONFERENCE_FAILED e)
      \<and> prop_of action (KStr ''error'') = JObj m \<and> truthy (prop_of m (KStr ''recoverable''))
      \<longrightarrow> switch_action e st action = ([], Inr ()))
   \<and> (prop_of action (KStr ''type'') = JSym (CONFERENCE_FAILED e)
      \<longrightarrow> map (\<lambda>(n, d, s). (n, s))
            (host_calls (fst (switch_action e st (action(KStr ''recoverable'' := r)))))
          = map (\<lambda>(n, d, s). (n, s)) (host_calls (fst (switch_action e st action))))
   \<and> (prop_of action (KStr ''type'') = JSym (CONFERENCE_FAILED e)
      \<and> (\<forall>n d s. ExternalAPI_sendEvent e n d s = None)
      \<longrightarrow> snd (switch_action e st (action(KStr ''recoverable'' := r)))
          = snd (switch_action e st action))"
proof (intro conjI impI)
  assume h: "prop_of action (KStr ''type'') = JSym (CONFERENCE_FAILED e)
    \<and> (prop_of action (KStr ''error'') = JUndefined \<or> prop_of action (KStr ''error'') = JNull)"
  then show switch: "switch_action e st action = ([], Inl TypeError)"
    by (auto simp add: switch_failed get_member_def)
  assume "next action = Inr v"
  then show "middleware e st next action = ([CallNext action], Inl TypeError)"
    by (simp add: middleware_def switch)
next
  assume "prop_of action (KStr ''type'') = JSym (CONFERENCE_FAILED e)
      \<and> prop_of action (KStr ''error'') = JObj m \<and> truthy (prop_of m (KStr ''recoverable''))"
  then show "switch_action e st action = ([], Inr ())"
    by (simp add: switch_failed get_member_def)
next
  let ?flagged = "action(KStr ''recoverable'' := r)"
  assume type: "prop_of action (KStr ''type'') = JSym (CONFERENCE_FAILED e)"
  then have type': "prop_of ?flagged (KStr ''type'') = JSym (CONFERENCE_FAILED e)"
    by (simp add: prop_of_def)
  have error: "prop_of ?flagged (KStr ''error'') = prop_of action (KStr ''error'')"
    by (simp add: prop_of_def)
  have "map (\<lambda>(n, d, s). (n, s))
          (host_calls (fst (sendConferenceEvent e st (?flagged(KStr ''error'' \<mapsto> JStr str)))))
        = map (\<lambda>(n, d, s). (n, s))
          (host_calls (fst (sendConferenceEvent e st (action(KStr ''error'' \<mapsto> JStr str)))))" for str
    by (simp add: sendConferenceEvent_names prop_of_def)
  then show "map (\<lambda>(n, d, s). (n, s)) (host_calls (fst (switch_action e st ?flagged)))
          = map (\<lambda>(n, d, s). (n, s)) (host_calls (fst (switch_action e st action)))"
    unfolding switch_failed [OF type] switch_failed [OF type'] error
    by (simp split: sum.splits)
next
  let ?flagged = "action(KStr ''recoverable'' := r)"
  assume h: "prop_of action (KStr ''type'') = JSym (CONFERENCE_FAILED e)
      \<and> (\<forall>n d s. ExternalAPI_sendEvent e n d s = None)"
  then have type: "prop_of action (KStr ''type'') = JSym (CONFERENCE_FAILED e)"
    and host: "\<forall>n d s. ExternalAPI_sendEvent e n d s = None" by simp_all
  have type': "prop_of ?flagged (KStr ''type'') = JSym (CONFERENCE_FAILED e)"
    using type by (simp add: prop_of_def)
  have error: "prop_of ?flagged (KStr ''error'') = prop_of action (KStr ''error'')"
    by (simp add: prop_of_def)
  have "snd (sendConferenceEvent e st (?flagged(KStr ''error'' \<mapsto> JStr str))) = Inr ()"
    and "snd (sendConferenceEvent e st (action(KStr ''error'' \<mapsto> JStr str))) = Inr ()" for str
    using type host
    by (auto intro!: sendConferenceEvent_returns [where y = "CONFERENCE_FAILED e"]
        simp add: prop_of_def)
  then show "snd (switch_action e st ?flagged) = snd (switch_action e st action)"
    unfolding switch_failed [OF type] switch_failed [OF type'] error
    by (simp split: sum.splits)
qed

theorem failure_reads_error_witness:
  "middleware example_env (mounted ''room1'') example_next (failed_action JNull)
     = ([CallNext (failed_action JNull)], Inl TypeError)
   \<and> switch_action example_env (mounted ''room1'') (failed_action password_required)
     = ([], Inr ())
   \<and> map (\<lambda>(n, d, s). (n, s))
        (host_calls (fst (switch_action example_env (mounted ''room1'')
           ((failed_action (JStr ''boom''))(KStr ''recoverable'' := Some (JBool True))))))
      = [(''CONFERENCE_FAILED'', JStr ''room1'')]
   \<and> snd (switch_action example_env (mounted ''room1'')
           ((failed_action (JStr ''boom''))(KStr ''recoverable'' := Some (JBool True))))
      = Inr ()"
proof -
  have sent: "switch_action example_env (mounted ''room1'') (failed_action (JStr ''boom''))
      = ([CallSendEvent ''CONFERENCE_FAILED'' (Map.empty(KStr ''error'' \<mapsto> JStr ''boom''))
           (JStr ''room1'')], Inr ())"
    by (simp add: failed_action_def run_simps fun_eq_iff)
  show ?thesis
    using failure_reads_error [of "failed_action JNull" example_env "mounted ''room1''"
        example_next "JObj (failed_action JNull)"]
      failure_reads_error [of "failed_action password_required"
        example_env "mounted ''room1''" example_next _
        "Map.empty(KStr ''name'' \<mapsto> JStr ''conference.passwordRequired'',
           KStr ''recoverable'' \<mapsto> JBool True)"]
      failure_reads_error [of "failed_action (JStr ''boom'')" example_env "mounted ''room1''"
        example_next _ _ "Some (JBool True)"]
    by (simp add: sent failed_action_fields password_required_def example_constants prop_of_def
        truthy_def example_next_def)
qed

subsection \<open>Failure events\<close>

text \<open>
  C2, as the code has it. Take a \<^verbatim>\<open>CONFERENCE_FAILED\<close> action whose error is neither
  \<^verbatim>\<open>undefined\<close> nor \<^verbatim>\<open>null\<close>, has no truthy \<^verbatim>\<open>recoverable\<close> and can be turned into a
  string, a surface mounted under a truthy scope, and a \<^verbatim>\<open>next\<close> that returns. After
  \<^verbatim>\<open>next\<close> the middleware makes exactly one call to the host, named by the description
  of \<^verbatim>\<open>CONFERENCE_FAILED\<close>. In its data \<^verbatim>\<open>error\<close> is that string; \<^verbatim>\<open>conference\<close> and
  \<^verbatim>\<open>type\<close> are left out; with a truthy \<^verbatim>\<open>conference\<close> the \<^verbatim>\<open>url\<close> is the
  \<^verbatim>\<open>toURLString\<close> of what the conference holds under \<^verbatim>\<open>JITSI_CONFERENCE_URL_KEY\<close>, and
  without one \<^verbatim>\<open>url\<close> is the action's own; every other field is the action's.
\<close>

theorem failure_event_data:
  "prop_of action (KStr ''type'') = JSym (CONFERENCE_FAILED e)
   \<and> prop_of action (KStr ''error'') \<noteq> JUndefined \<and> prop_of action (KStr ''error'') \<noteq> JNull
   \<and> (\<forall>m. prop_of action (KStr ''error'') = JObj m \<longrightarrow> \<not> truthy (prop_of m (KStr ''recoverable'')))
   \<and> toErrorString (prop_of action (KStr ''error'')) = Inr s
   \<and> app (getState st) = Some a \<and> truthy (prop_of (props a) (KStr ''externalAPIScope''))
   \<and> next action = Inr v
   \<longrightarrow> (\<exists>name data.
          getSymbolDescription (JSym (CONFERENCE_FAILED e)) = Inr name
          \<and> fst (middleware e st next action) =
              [CallNext action,
               CallSendEvent name data (prop_of (props a) (KStr ''externalAPIScope''))]
          \<and> data (KStr ''error'') = Some (JStr s)
          \<and> data (KStr ''conference'') = None \<and> data (KStr ''type'') = None
          \<and> (truthy (prop_of action (KStr ''conference''))
             \<longrightarrow> data (KStr ''url'') = Some (toURLString e
                   (case prop_of action (KStr ''conference'') of
                      JObj c \<Rightarrow> prop_of c (property_key (JITSI_CONFERENCE_URL_KEY e))
                    | _ \<Rightarrow> JUndefined)))
          \<and> (\<not> truthy (prop_of action (KStr ''conference''))
             \<longrightarrow> data (KStr ''url'') = action (KStr ''url''))
          \<and> (\<forall>k. k \<noteq> KStr ''error'' \<and> k \<noteq> KStr ''conference'' \<and> k \<noteq> KStr ''type''
                  \<and> k \<noteq> KStr ''url''
                \<longrightarrow> data k = action k))"
proof (intro impI)
  let ?error = "prop_of action (KStr ''error'')"
  let ?sent = "action(KStr ''error'' \<mapsto> JStr s)"
  assume h: "prop_of action (KStr ''type'') = JSym (CONFERENCE_FAILED e)
   \<and> ?error \<noteq> JUndefined \<and> ?error \<noteq> JNull
   \<and> (\<forall>m. ?error = JObj m \<longrightarrow> \<not> truthy (prop_of m (KStr ''recoverable'')))
   \<and> toErrorString ?error = Inr s
   \<and> app (getState st) = Some a \<and> truthy (prop_of (props a) (KStr ''externalAPIScope''))
   \<and> next action = Inr v"
  let ?r = "case ?error of JObj m \<Rightarrow> prop_of m (KStr ''recoverable'') | _ \<Rightarrow> JUndefined"
  have r: "get_member ?error (KStr ''recoverable'') = Inr ?r"
    using h by (intro get_member_present) simp_all
  have "\<not> truthy ?r"
    using h by (cases ?error) (simp_all add: truthy_def)
  then have switch: "switch_action e st action = sendConferenceEvent e st ?sent"
    using h by (simp add: switch_failed r)
  have type: "prop_of ?sent (KStr ''type'') = JSym (CONFERENCE_FAILED e)"
    and conference: "prop_of ?sent (KStr ''conference'') = prop_of action (KStr ''conference'')"
    using h by (simp_all add: prop_of_def)
  have calls: "fst (middleware e st next action) = CallNext action # fst (switch_action e st action)"
    using h by (simp add: middleware_calls)
  from h have "app (getState st) = Some a"
    and "truthy (prop_of (props a) (KStr ''externalAPIScope''))" by simp_all
  from sendConferenceEvent_data [OF type this, of e]
  show "\<exists>name data.
          getSymbolDescription (JSym (CONFERENCE_FAILED e)) = Inr name
          \<and> fst (middleware e st next action) =
              [CallNext action,
               CallSendEvent name data (prop_of (props a) (KStr ''externalAPIScope''))]
          \<and> data (KStr ''error'') = Some (JStr s)
          \<and> data (KStr ''conference'') = None \<and> data (KStr ''type'') = None
          \<and> (truthy (prop_of action (KStr ''conference''))
             \<longrightarrow> data (KStr ''url'') = Some (toURLString e
                   (case prop_of action (KStr ''conference'') of
                      JObj c \<Rightarrow> prop_of c (property_key (JITSI_CONFERENCE_URL_KEY e))
                    | _ \<Rightarrow> JUndefined)))
          \<and> (\<not> truthy (prop_of action (KStr ''conference''))
             \<longrightarrow> data (KStr ''url'') = action (KStr ''url''))
          \<and> (\<forall>k. k \<noteq> KStr ''error'' \<and> k \<noteq> KStr ''conference'' \<and> k \<noteq> KStr ''type''
                  \<and> k \<noteq> KStr ''url''
                \<longrightarrow> data k = action k)"
    unfolding calls switch conference by (elim exE conjE, intro exI conjI) auto
qed

theorem failure_event_data_witness:
  "\<exists>data. fst (middleware example_env (mounted ''room1'') example_next
                 (failed_action (JObj (Map.empty(KStr ''name'' \<mapsto> JStr ''conference.destroyed'')))))
            = [CallNext (failed_action
                 (JObj (Map.empty(KStr ''name'' \<mapsto> JStr ''conference.destroyed'')))),
               CallSendEvent ''CONFERENCE_FAILED'' data (JStr ''room1'')]
       \<and> data (KStr ''error'') = Some (JStr ''conference.destroyed'')
       \<and> data (KStr ''conference'') = None \<and> data (KStr ''type'') = None
       \<and> data (KStr ''url'') = None"
  using failure_event_data [of
      "failed_action (JObj (Map.empty(KStr ''name'' \<mapsto> JStr ''conference.destroyed'')))"
      example_env "''conference.destroyed''" "mounted ''room1''"
      "\<lparr> props = Map.empty(KStr ''externalAPIScope'' \<mapsto> JStr ''room1'') \<rparr>" example_next
      "JObj (failed_action (JObj (Map.empty(KStr ''name'' \<mapsto> JStr ''conference.destroyed''))))"]
  by (auto simp add: failed_action_def prop_of_def example_constants mounted_def truthy_def
      toErrorString_def Error_prototype_toString_def ToString_def example_next_def
      native_description startsWith_def)

text \<open>
  C2 as stated fails: more than \<^verbatim>\<open>error\<close> and the type is taken out of the data. The
  \<^verbatim>\<open>conference\<close> of the action is not in it, and a \<^verbatim>\<open>url\<close> that the action does not have
  is.
\<close>

theorem failure_event_drops_conference:
  "fst (switch_action example_env (mounted ''room1'')
          ((failed_action (JStr ''boom''))
             (KStr ''recoverable'' \<mapsto> JBool False,
              KStr ''conference'' \<mapsto>
                JObj (Map.empty(KSym 5 ''url'' \<mapsto> JStr ''https://example.com/room'')))))
   = [CallSendEvent ''CONFERENCE_FAILED''
        (Map.empty(KStr ''error'' \<mapsto> JStr ''boom'', KStr ''recoverable'' \<mapsto> JBool False,
           KStr ''url'' \<mapsto> JStr ''https://example.com/room''))
        (JStr ''room1'')]"
  by (simp add: failed_action_def run_simps fun_eq_iff)

subsection \<open>Conference lifecycle events\<close>

text \<open>
  C3, as the code has it. For an action of one of the four lifecycle types (which is not
  also the type \<^verbatim>\<open>CONFERENCE_FAILED\<close>), the switch raises nothing unless the host does.
  With a surface mounted under a truthy scope it makes exactly one call to the host, named
  by the description of the type; the data has no \<^verbatim>\<open>conference\<close> and no \<^verbatim>\<open>type\<close>; with a
  truthy \<^verbatim>\<open>conference\<close> its \<^verbatim>\<open>url\<close> is \<^verbatim>\<open>toURLString\<close> of what the conference holds under
  \<^verbatim>\<open>JITSI_CONFERENCE_URL_KEY\<close>; with a falsy or missing \<^verbatim>\<open>conference\<close> its \<^verbatim>\<open>url\<close> is the
  action's own \<^verbatim>\<open>url\<close>, present exactly when the action has one; every other field is the
  action's.
\<close>

theorem lifecycle_event_data:
  "prop_of action (KStr ''type'') = JSym y \<and> y \<noteq> CONFERENCE_FAILED e
   \<and> (y = CONFERENCE_JOINED e \<or> y = CONFERENCE_LEFT e
        \<or> y = CONFERENCE_WILL_JOIN e \<or> y = CONFERENCE_WILL_LEAVE e)
   \<longrightarrow> ((\<forall>n d s. ExternalAPI_sendEvent e n d s = None) \<longrightarrow> snd (switch_action e st action) = Inr ())
       \<and> (app (getState st) = Some a \<and> truthy (prop_of (props a) (KStr ''externalAPIScope''))
          \<longrightarrow> (\<exists>name data.
                 getSymbolDescription (JSym y) = Inr name
                 \<and> fst (switch_action e st action) =
                     [CallSendEvent name data (prop_of (props a) (KStr ''externalAPIScope''))]
                 \<and> data (KStr ''conference'') = None \<and> data (KStr ''type'') = None
                 \<and> (truthy (prop_of action (KStr ''conference''))
                    \<longrightarrow> data (KStr ''url'') = Some (toURLString e
                          (case prop_of action (KStr ''conference'') of
                             JObj c \<Rightarrow> prop_of c (property_key (JITSI_CONFERENCE_URL_KEY e))
                           | _ \<Rightarrow> JUndefined)))
                 \<and> (\<not> truthy (prop_of action (KStr ''conference''))
                    \<longrightarrow> data (KStr ''url'') = action (KStr ''url''))
                 \<and> (\<forall>k. k \<noteq> KStr ''conference'' \<and> k \<noteq> KStr ''type'' \<and> k \<noteq> KStr ''url''
                       \<longrightarrow> data k = action k)))"
proof (intro impI conjI)
  assume h: "prop_of action (KStr ''type'') = JSym y \<and> y \<noteq> CONFERENCE_FAILED e
   \<and> (y = CONFERENCE_JOINED e \<or> y = CONFERENCE_LEFT e
        \<or> y = CONFERENCE_WILL_JOIN e \<or> y = CONFERENCE_WILL_LEAVE e)"
  then have type: "prop_of action (KStr ''type'') = JSym y" by simp
  have switch: "switch_action e st action = sendConferenceEvent e st action"
    using h by (intro switch_lifecycle [of action y e st]) simp_all
  {
    assume "\<forall>n d s. ExternalAPI_sendEvent e n d s = None"
    then show "snd (switch_action e st action) = Inr ()"
      unfolding switch by (rule sendConferenceEvent_returns [OF type])
  }
  {
    assume "app (getState st) = Some a \<and> truthy (prop_of (props a) (KStr ''externalAPIScope''))"
    then show "\<exists>name data.
                 getSymbolDescription (JSym y) = Inr name
                 \<and> fst (switch_action e st action) =
                     [CallSendEvent name data (prop_of (props a) (KStr ''externalAPIScope''))]
                 \<and> data (KStr ''conference'') = None \<and> data (KStr ''type'') = None
                 \<and> (truthy (prop_of action (KStr ''conference''))
                    \<longrightarrow> data (KStr ''url'') = Some (toURLString e
                          (case prop_of action (KStr ''conference'') of
                             JObj c \<Rightarrow> prop_of c (property_key (JITSI_CONFERENCE_URL_KEY e))
                           | _ \<Rightarrow> JUndefined)))
                 \<and> (\<not> truthy (prop_of action (KStr ''conference''))
                    \<longrightarrow> data (KStr ''url'') = action (KStr ''url''))
                 \<and> (\<forall>k. k \<noteq> KStr ''conference'' \<and> k \<noteq> KStr ''type'' \<and> k \<noteq> KStr ''url''
                       \<longrightarrow> data k = action k)"
      unfolding switch using sendConferenceEvent_data [OF type, of st a e] by simp
  }
qed

theorem lifecycle_event_data_witness:
  "snd (switch_action example_env (mounted ''room1'') joined_action) = Inr ()
   \<and> (\<exists>data. fst (switch_action example_env (mounted ''room1'') joined_action) =
                [CallSendEvent ''CONFERENCE_JOINED'' data (JStr ''room1'')]
        \<and> data (KStr ''conference'') = None \<and> data (KStr ''type'') = None
        \<and> data (KStr ''url'') = Some (JStr ''https://example.com/room''))"
  using lifecycle_event_data [of joined_action "NativeSymbol 1 ''CONFERENCE_JOINED''"
      example_env "mounted ''room1''"
      "\<lparr> props = Map.empty(KStr ''externalAPIScope'' \<mapsto> JStr ''room1'') \<rparr>"]
  by (auto simp add: joined_action_def prop_of_def example_constants mounted_def truthy_def
      example_toURLString_def native_description startsWith_def property_key_def)

text \<open>
  C3 as stated fails: without a \<^verbatim>\<open>conference\<close> the data can still have a \<^verbatim>\<open>url\<close> key,
  the action's own, which passes through like any other field.
\<close>

theorem lifecycle_url_passes_through:
  "switch_action example_env (mounted ''room1'')
     (Map.empty(KStr ''type'' \<mapsto> JSym (NativeSymbol 2 ''CONFERENCE_LEFT''),
        KStr ''url'' \<mapsto> JStr ''https://example.com/left''))
   = ([CallSendEvent ''CONFERENCE_LEFT''
         (Map.empty(KStr ''url'' \<mapsto> JStr ''https://example.com/left'')) (JStr ''room1'')], Inr ())"
  by (simp add: run_simps fun_eq_iff)

subsection \<open>Configuration errors\<close>

text \<open>
  C4, as the code has it. An action has one type tag. When it is \<^verbatim>\<open>LOAD_CONFIG_ERROR\<close>
  (a symbol of its own among the six), its error can be turned into a string, a surface is
  mounted under a truthy scope and \<^verbatim>\<open>next\<close> returns, the middleware makes exactly one
  call to the host after \<^verbatim>\<open>next\<close>: the name is the description of \<^verbatim>\<open>LOAD_CONFIG_ERROR\<close>
  itself, the data are the error string and the \<^verbatim>\<open>toURLString\<close> of \<^verbatim>\<open>locationURL\<close>. An
  action whose type is none of the six makes no call to the host, whatever else it
  carries. So the call of the example is made exactly when \<^verbatim>\<open>config.fetch.error\<close> is the
  label of \<^verbatim>\<open>LOAD_CONFIG_ERROR\<close>.
\<close>

theorem config_error_event:
  "(prop_of action (KStr ''type'') = JSym (LOAD_CONFIG_ERROR e)
    \<and> LOAD_CONFIG_ERROR e \<noteq> CONFERENCE_FAILED e \<and> LOAD_CONFIG_ERROR e \<noteq> CONFERENCE_JOINED e
    \<and> LOAD_CONFIG_ERROR e \<noteq> CONFERENCE_LEFT e \<and> LOAD_CONFIG_ERROR e \<noteq> CONFERENCE_WILL_JOIN e
    \<and> LOAD_CONFIG_ERROR e \<noteq> CONFERENCE_WILL_LEAVE e
    \<and> toErrorString (prop_of action (KStr ''error'')) = Inr s
    \<and> app (getState st) = Some a \<and> truthy (prop_of (props a) (KStr ''externalAPIScope''))
    \<and> next action = Inr v
    \<longrightarrow> (\<exists>name. getSymbolDescription (JSym (LOAD_CONFIG_ERROR e)) = Inr name
          \<and> fst (middleware e st next action) =
              [CallNext action,
               CallSendEvent name
                 (Map.empty(KStr ''error'' \<mapsto> JStr s,
                    KStr ''url'' \<mapsto> toURLString e (prop_of action (KStr ''locationURL''))))
                 (prop_of (props a) (KStr ''externalAPIScope''))]))
   \<and> (prop_of action (KStr ''type'') \<noteq> JSym (CONFERENCE_FAILED e)
      \<and> prop_of action (KStr ''type'') \<noteq> JSym (CONFERENCE_JOINED e)
      \<and> prop_of action (KStr ''type'') \<noteq> JSym (CONFERENCE_LEFT e)
      \<and> prop_of action (KStr ''type'') \<noteq> JSym (CONFERENCE_WILL_JOIN e)
      \<and> prop_of action (KStr ''type'') \<noteq> JSym (CONFERENCE_WILL_LEAVE e)
      \<and> prop_of action (KStr ''type'') \<noteq> JSym (LOAD_CONFIG_ERROR e)
      \<longrightarrow> host_calls (fst (middleware e st next action)) = [])"
proof (intro conjI impI)
  assume h: "prop_of action (KStr ''type'') = JSym (LOAD_CONFIG_ERROR e)
    \<and> LOAD_CONFIG_ERROR e \<noteq> CONFERENCE_FAILED e \<and> LOAD_CONFIG_ERROR e \<noteq> CONFERENCE_JOINED e
    \<and> LOAD_CONFIG_ERROR e \<noteq> CONFERENCE_LEFT e \<and> LOAD_CONFIG_ERROR e \<noteq> CONFERENCE_WILL_JOIN e
    \<and> LOAD_CONFIG_ERROR e \<noteq> CONFERENCE_WILL_LEAVE e
    \<and> toErrorString (prop_of action (KStr ''error'')) = Inr s
    \<and> app (getState st) = Some a \<and> truthy (prop_of (props a) (KStr ''externalAPIScope''))
    \<and> next action = Inr v"
  obtain name where name: "getSymbolDescription (JSym (LOAD_CONFIG_ERROR e)) = Inr name"
    using symbol_description by blast
  have "switch_action e st action =
        sendEvent e st name
          (Map.empty(KStr ''error'' \<mapsto> JStr s,
             KStr ''url'' \<mapsto> toURLString e (prop_of action (KStr ''locationURL''))))"
    using h name by (simp add: switch_config [of action e name st])
  moreover from h have "app (getState st) = Some a"
    and "truthy (prop_of (props a) (KStr ''externalAPIScope''))" by simp_all
  ultimately have "fst (switch_action e st action) =
      [CallSendEvent name
         (Map.empty(KStr ''error'' \<mapsto> JStr s,
            KStr ''url'' \<mapsto> toURLString e (prop_of action (KStr ''locationURL''))))
         (prop_of (props a) (KStr ''externalAPIScope''))]"
    by (simp add: sendEvent_scope)
  then show "\<exists>name. getSymbolDescription (JSym (LOAD_CONFIG_ERROR e)) = Inr name
          \<and> fst (middleware e st next action) =
              [CallNext action,
               CallSendEvent name
                 (Map.empty(KStr ''error'' \<mapsto> JStr s,
                    KStr ''url'' \<mapsto> toURLString e (prop_of action (KStr ''locationURL''))))
                 (prop_of (props a) (KStr ''externalAPIScope''))]"
    using h name by (simp add: middleware_calls)
next
  assume "prop_of action (KStr ''type'') \<noteq> JSym (CONFERENCE_FAILED e)
      \<and> prop_of action (KStr ''type'') \<noteq> JSym (CONFERENCE_JOINED e)
      \<and> prop_of action (KStr ''type'') \<noteq> JSym (CONFERENCE_LEFT e)
      \<and> prop_of action (KStr ''type'') \<noteq> JSym (CONFERENCE_WILL_JOIN e)
      \<and> prop_of action (KStr ''type'') \<noteq> JSym (CONFERENCE_WILL_LEAVE e)
      \<and> prop_of action (KStr ''type'') \<noteq> JSym (LOAD_CONFIG_ERROR e)"
  then have "switch_action e st action = ([], Inr ())"
    by (intro switch_unmatched) simp_all
  then show "host_calls (fst (middleware e st next action)) = []"
    by (simp add: middleware_host_calls split: sum.splits)
qed

theorem config_error_event_witness:
  "fst (middleware (example_env \<lparr> LOAD_CONFIG_ERROR := NativeSymbol 6 ''config.fetch.error'' \<rparr>)
          (mounted ''room1'') example_next (config_action (NativeSymbol 6 ''config.fetch.error'')))
   = [CallNext (config_action (NativeSymbol 6 ''config.fetch.error'')),
      CallSendEvent ''config.fetch.error''
        (Map.empty(KStr ''error'' \<mapsto> JStr ''network down'', KStr ''url'' \<mapsto> JStr ''http://cfg/x.json''))
        (JStr ''room1'')]
   \<and> host_calls (fst (middleware example_env (mounted ''room1'') example_next
        (config_action (NativeSymbol 7 ''config.fetch.error'')))) = []"
  using config_error_event [of "config_action (NativeSymbol 6 ''config.fetch.error'')"
      "example_env \<lparr> LOAD_CONFIG_ERROR := NativeSymbol 6 ''config.fetch.error'' \<rparr>"
      "''network down''" "mounted ''room1''"
      "\<lparr> props = Map.empty(KStr ''externalAPIScope'' \<mapsto> JStr ''room1'') \<rparr>" example_next
      "JObj (config_action (NativeSymbol 6 ''config.fetch.error''))"]
    config_error_event [of "config_action (NativeSymbol 7 ''config.fetch.error'')" example_env
      "''network down''" "mounted ''room1''"
      "\<lparr> props = Map.empty(KStr ''externalAPIScope'' \<mapsto> JStr ''room1'') \<rparr>" example_next]
  by (simp add: config_action_def prop_of_def example_constants mounted_def truthy_def
      toErrorString_def example_next_def example_toURLString_def native_description startsWith_def)

text \<open>
  C4 as stated fails: there is no inner tag that names the event apart from the type of
  the action. With \<^verbatim>\<open>LOAD_CONFIG_ERROR\<close> labelled by its own name, an action of that type
  that carries a tag \<^verbatim>\<open>config.fetch.error\<close> in a field \<^verbatim>\<open>kind\<close> is sent under the name
  \<^verbatim>\<open>LOAD_CONFIG_ERROR\<close>, and an action whose type is a tag \<^verbatim>\<open>config.fetch.error\<close> is not
  sent at all.
\<close>

theorem config_error_named_by_action_type:
  "fst (switch_action example_env (mounted ''room1'')
          ((config_action (NativeSymbol 6 ''LOAD_CONFIG_ERROR''))
             (KStr ''kind'' \<mapsto> JSym (NativeSymbol 7 ''config.fetch.error''))))
   = [CallSendEvent ''LOAD_CONFIG_ERROR''
        (Map.empty(KStr ''error'' \<mapsto> JStr ''network down'', KStr ''url'' \<mapsto> JStr ''http://cfg/x.json''))
        (JStr ''room1'')]
   \<and> fst (switch_action example_env (mounted ''room1'')
          (config_action (NativeSymbol 7 ''config.fetch.error''))) = []"
  by (simp add: config_action_def run_simps)

subsection \<open>What crosses the boundary\<close>




end
